theory Spec2Isabelle
  imports Complex_Main "HOL-Library.Sublist"
begin

section \<open>The build controller of \<open>pkg/build/controller.go\<close>\<close>

text \<open>
  The controller drives a build through the statuses new, pending, running and the three
  final ones. The decision function is \<open>synchronize\<close>; \<open>watchBuilds\<close> applies it to every
  listed build on each tick and writes a changed status back.

  The collaborators (the build registry \<open>osClient\<close>, the pod client \<open>kubeClient\<close>, the
  strategies and the wall clock) are interfaces whose implementations are outside the
  controller. The two clients and the clock are modelled as response functions that read
  the log of the calls made so far, so that the same call may be answered differently at
  different moments; a strategy is a function of the build. The controller's state is the
  log; every call of a client appends one entry to it. The context and the selector
  \<open>labels.Everything()\<close> are the same in every call and are left out, and so are the
  messages written with \<open>glog\<close>.
\<close>

subsection \<open>Data of \<open>pkg/build/api\<close> and of the pod API\<close>

type_synonym BuildType = string

text \<open>
  \<open>api.BuildStatus\<close> is a string type with six named constants. A value that is none of
  them is \<open>BuildStatusOther\<close>, the case the \<open>default\<close> branch of \<open>synchronize\<close> handles.
\<close>

datatype BuildStatus =
    BuildNew
  | BuildPending
  | BuildRunning
  | BuildComplete
  | BuildFailed
  | BuildError
  | BuildStatusOther string

text \<open>A point in time, in nanoseconds since the epoch.\<close>

type_synonym Time = int

record BuildInput =
  Type :: BuildType
  SourceURI :: string
  SourceRef :: string
  ImageTag :: string
  Registry :: string
  BuilderImage :: string

record Build =
  ID :: string
  CreationTimestamp :: Time
  Labels :: "string \<rightharpoonup> string"
  Input :: BuildInput
  Status :: BuildStatus
  PodID :: string

record BuildList =
  Items :: "Build list"

text \<open>
  Of a pod the controller reads \<open>CurrentState.Status\<close> and, for every entry of
  \<open>CurrentState.Info\<close>, \<open>State.Termination\<close> (a pointer, \<open>None\<close> when nil) and its
  \<open>ExitCode\<close>. \<open>Info\<close> is a Go map from container name to container status; it is kept
  as the list of its entries in the order the \<open>range\<close> loop visits them.
\<close>

datatype PodStatus = PodWaiting | PodRunning | PodTerminated

record ContainerStateTerminated =
  ExitCode :: int

record ContainerState =
  Termination :: "ContainerStateTerminated option"

record ContainerStatus =
  State :: ContainerState

type_synonym PodInfo = "(string \<times> ContainerStatus) list"

record PodState =
  PodState_Status :: PodStatus
  Info :: PodInfo

record Pod =
  Pod_ID :: string
  CurrentState :: PodState

subsection \<open>Errors\<close>

text \<open>
  An error that a collaborator returns is known by the text of its \<open>Error()\<close> method:
  \<open>CollaboratorError msg\<close>, and the collaborators below return the text in the \<open>Inl\<close>
  case. An error that the controller makes with \<open>fmt.Errorf\<close> is kept as the format string
  and its arguments, unrendered.
\<close>

datatype error =
    CollaboratorError string
  | Errorf string "fmtArg list"
and fmtArg =
    ArgString string
  | ArgStatus BuildStatus
  | ArgError error

subsection \<open>Collaborators\<close>

datatype Call =
    CallListBuilds
  | CallUpdateBuild Build
  | CallCreatePod Pod
  | CallGetPod string

type_synonym World = "Call list"

text \<open>\<open>BuildJobStrategy\<close>: the method \<open>CreateBuildPod\<close>.\<close>

type_synonym BuildJobStrategy = "Build \<Rightarrow> string + Pod"

record osclient =
  ListBuilds :: "World \<Rightarrow> string + BuildList"
  UpdateBuild :: "World \<Rightarrow> Build \<Rightarrow> string + Build"

record kubeclient =
  CreatePod :: "World \<Rightarrow> Pod \<Rightarrow> string + Pod"
  GetPod :: "World \<Rightarrow> string \<Rightarrow> string + Pod"

record BuildController =
  osClient :: osclient
  kubeClient :: kubeclient
  buildStrategies :: "BuildType \<rightharpoonup> BuildJobStrategy"
  timeout :: int

text \<open>
  The wall clock: \<open>clk w t\<close> is the \<open>float64\<close> that \<open>time.Since(t).Seconds()\<close> yields when
  it is evaluated after the calls \<open>w\<close>. Every finite \<open>float64\<close> is a rational number.
\<close>

type_synonym Clock = "World \<Rightarrow> Time \<Rightarrow> rat"

subsection \<open>Library functions\<close>

text \<open>
  \<open>strings.Index(s, substr)\<close>: the index of the first occurrence of \<open>substr\<close> in \<open>s\<close>,
  or \<open>-1\<close>.
\<close>

fun Index_from :: "nat \<Rightarrow> string \<Rightarrow> string \<Rightarrow> int" where
  "Index_from i [] substr = (if substr = [] then int i else - 1)"
| "Index_from i (c # s) substr =
     (if prefix substr (c # s) then int i else Index_from (Suc i) s substr)"

definition strings_Index :: "string \<Rightarrow> string \<Rightarrow> int" where
  "strings_Index s substr = Index_from 0 s substr"

text \<open>
  The conversion \<open>int(x)\<close> of a \<open>float64\<close> discards the fraction: it truncates towards
  zero. (The seconds of a \<open>time.Duration\<close> are below \<open>2^63 / 10^9\<close> in absolute value, so
  the result fits the 64-bit \<open>int\<close>.)
\<close>

definition int_of_float64 :: "rat \<Rightarrow> int" where
  "int_of_float64 x = (if 0 \<le> x then \<lfloor>x\<rfloor> else \<lceil>x\<rceil>)"

subsection \<open>\<open>hasTimeoutElapsed\<close>\<close>

definition hasTimeoutElapsed :: "Clock \<Rightarrow> World \<Rightarrow> Build \<Rightarrow> int \<Rightarrow> bool" where
  "hasTimeoutElapsed clk w build tmo =
     (let timestamp = CreationTimestamp build;
          elapsed = clk w timestamp
      in int_of_float64 elapsed > tmo)"

subsection \<open>\<open>synchronize\<close>\<close>

text \<open>
  The loop over \<open>pod.CurrentState.Info\<close>, started with \<open>nextStatus = BuildComplete\<close>.
\<close>

fun checkExitCodes :: "BuildStatus \<Rightarrow> PodInfo \<Rightarrow> BuildStatus" where
  "checkExitCodes nextStatus [] = nextStatus"
| "checkExitCodes nextStatus ((name, info) # rest) =
     checkExitCodes
       (case Termination (State info) of
          None \<Rightarrow> nextStatus
        | Some t \<Rightarrow> if ExitCode t \<noteq> 0 then BuildFailed else nextStatus)
       rest"

text \<open>
  \<open>synchronize\<close> returns the next status and the error, and besides them the build (whose
  \<open>PodID\<close> the first branch assigns through the pointer) and the log of calls.
\<close>

definition synchronize ::
  "Clock \<Rightarrow> BuildController \<Rightarrow> World \<Rightarrow> Build \<Rightarrow> BuildStatus \<times> error option \<times> Build \<times> World"
where
  "synchronize clk bc w build =
     (case Status build of
        BuildNew \<Rightarrow>
          (BuildPending, None,
           build\<lparr>PodID := ''build-'' @ Type (Input build) @ ''-'' @ ID build\<rparr>, w)
      | BuildPending \<Rightarrow>
          (case buildStrategies bc (Type (Input build)) of
             None \<Rightarrow>
               (BuildError,
                Some (Errorf ''No build type for %s'' [ArgString (Type (Input build))]),
                build, w)
           | Some buildStrategy \<Rightarrow>
               (case buildStrategy build of
                  Inl err \<Rightarrow> (BuildFailed, Some (CollaboratorError err), build, w)
                | Inr podSpec \<Rightarrow>
                    (case CreatePod (kubeClient bc) w podSpec of
                       Inl err \<Rightarrow>
                         (if strings_Index err ''already exists'' \<noteq> - 1
                          then (Status build, Some (CollaboratorError err), build,
                                w @ [CallCreatePod podSpec])
                          else (BuildFailed, Some (CollaboratorError err), build,
                                w @ [CallCreatePod podSpec]))
                     | Inr created \<Rightarrow>
                         (BuildRunning, None, build, w @ [CallCreatePod podSpec]))))
      | BuildRunning \<Rightarrow>
          (if hasTimeoutElapsed clk w build (timeout bc)
           then (BuildFailed, Some (Errorf ''Build timed out'' []), build, w)
           else
             (case GetPod (kubeClient bc) w (PodID build) of
                Inl err \<Rightarrow>
                  (Status build,
                   Some (Errorf ''Error retrieving pod for build ID %v: %#v''
                           [ArgString (ID build), ArgError (CollaboratorError err)]),
                   build, w @ [CallGetPod (PodID build)])
              | Inr pod \<Rightarrow>
                  (if PodState_Status (CurrentState pod) \<noteq> PodTerminated
                   then (Status build, None, build, w @ [CallGetPod (PodID build)])
                   else (checkExitCodes BuildComplete (Info (CurrentState pod)), None,
                         build, w @ [CallGetPod (PodID build)]))))
      | BuildComplete \<Rightarrow> (Status build, None, build, w)
      | BuildFailed \<Rightarrow> (Status build, None, build, w)
      | BuildError \<Rightarrow> (Status build, None, build, w)
      | BuildStatusOther s \<Rightarrow>
          (BuildError, Some (Errorf ''Invalid build status: %s'' [ArgStatus (Status build)]),
           build, w))"

subsection \<open>\<open>watchBuilds\<close>\<close>

text \<open>The body of the loop over \<open>builds.Items\<close>, for one build.\<close>

definition syncBuild :: "Clock \<Rightarrow> BuildController \<Rightarrow> World \<Rightarrow> Build \<Rightarrow> World" where
  "syncBuild clk bc w build0 =
     (case synchronize clk bc w build0 of
        (nextStatus, err, build, w1) \<Rightarrow>
          if nextStatus \<noteq> Status build
          then (let build' = build\<lparr>Status := nextStatus\<rparr>
                in case UpdateBuild (osClient bc) w1 build' of
                     Inl err' \<Rightarrow> w1 @ [CallUpdateBuild build']
                   | Inr updated \<Rightarrow> w1 @ [CallUpdateBuild build'])
          else w1)"

fun syncBuilds :: "Clock \<Rightarrow> BuildController \<Rightarrow> World \<Rightarrow> Build list \<Rightarrow> World" where
  "syncBuilds clk bc w [] = w"
| "syncBuilds clk bc w (build # rest) = syncBuilds clk bc (syncBuild clk bc w build) rest"

text \<open>
  One tick of \<open>watchBuilds\<close>: the \<open>case <-syncTime\<close> of its endless loop. The flag is
  \<open>False\<close> when the function returns (listing the builds failed) and \<open>True\<close> when the loop
  goes on to wait for the next tick.
\<close>

definition watchBuilds_tick :: "Clock \<Rightarrow> BuildController \<Rightarrow> World \<Rightarrow> World \<times> bool" where
  "watchBuilds_tick clk bc w =
     (case ListBuilds (osClient bc) w of
        Inl err \<Rightarrow> (w @ [CallListBuilds], False)
      | Inr builds \<Rightarrow> (syncBuilds clk bc (w @ [CallListBuilds]) (Items builds), True))"

subsection \<open>Reading the log\<close>

text \<open>The builds written back with \<open>UpdateBuild\<close>, in the order of the calls.\<close>

fun updateCalls :: "World \<Rightarrow> Build list" where
  "updateCalls [] = []"
| "updateCalls (CallUpdateBuild build # calls) = build # updateCalls calls"
| "updateCalls (c # calls) = updateCalls calls"

subsection \<open>A scenario\<close>

text \<open>
  Concrete collaborators for the examples below. The clock \<open>clock_at now\<close> stands still at
  \<open>now\<close> nanoseconds; the strategy names the pod after the build's \<open>PodID\<close>; a pod client
  answers \<open>pod_found st info\<close> to every fetch, or fails with a fixed text.
\<close>

definition clock_at :: "int \<Rightarrow> Clock" where
  "clock_at now = (\<lambda>w t. of_int (now - t) / 1000000000)"

definition example_build :: "string \<Rightarrow> BuildType \<Rightarrow> BuildStatus \<Rightarrow> string \<Rightarrow> Build" where
  "example_build i ty st pod =
     \<lparr>ID = i, CreationTimestamp = 0, Labels = Map.empty,
      Input = \<lparr>Type = ty, SourceURI = ''http://my.build.com/the/stibuild/Dockerfile'',
               SourceRef = [], ImageTag = ''repository/stiBuild'',
               Registry = ''docker-registry'', BuilderImage = []\<rparr>,
      Status = st, PodID = pod\<rparr>"

definition example_pod :: "string \<Rightarrow> PodStatus \<Rightarrow> PodInfo \<Rightarrow> Pod" where
  "example_pod i st info = \<lparr>Pod_ID = i, CurrentState = \<lparr>PodState_Status = st, Info = info\<rparr>\<rparr>"

definition example_strategy :: BuildJobStrategy where
  "example_strategy build = Inr (example_pod (PodID build) PodWaiting [])"

definition pod_found :: "PodStatus \<Rightarrow> PodInfo \<Rightarrow> string \<Rightarrow> string + Pod" where
  "pod_found st info i = Inr (example_pod i st info)"

definition fails_with :: "string \<Rightarrow> 'a \<Rightarrow> string + 'b" where
  "fails_with msg x = Inl msg"

definition exited :: "int \<Rightarrow> ContainerStatus" where
  "exited code = \<lparr>State = \<lparr>Termination = Some \<lparr>ExitCode = code\<rparr>\<rparr>\<rparr>"

definition not_exited :: ContainerStatus where
  "not_exited = \<lparr>State = \<lparr>Termination = None\<rparr>\<rparr>"

definition example_controller ::
  "(BuildType \<rightharpoonup> BuildJobStrategy) \<Rightarrow> (Pod \<Rightarrow> string + Pod) \<Rightarrow> (string \<Rightarrow> string + Pod) \<Rightarrow>
   Build list \<Rightarrow> int \<Rightarrow> BuildController"
where
  "example_controller strategies create get builds tmo =
     \<lparr>osClient = \<lparr>ListBuilds = (\<lambda>w. Inr \<lparr>Items = builds\<rparr>), UpdateBuild = (\<lambda>w b. Inr b)\<rparr>,
      kubeClient = \<lparr>CreatePod = (\<lambda>w. create), GetPod = (\<lambda>w. get)\<rparr>,
      buildStrategies = strategies,
      timeout = tmo\<rparr>"

section \<open>Properties\<close>

subsection \<open>Library functions\<close>

lemma Index_from_found: "Index_from i s substr \<noteq> - 1 \<longleftrightarrow> sublist substr s"
proof (induction s arbitrary: i)
  case Nil
  show ?case by simp
next
  case (Cons c s)
  show ?case
  proof (cases "prefix substr (c # s)")
    case True
    then show ?thesis by (simp add: sublist_Cons_right)
  next
    case False
    then show ?thesis using Cons.IH [of "Suc i"] by (simp add: sublist_Cons_right)
  qed
qed

lemma strings_Index_found: "strings_Index s substr \<noteq> - 1 \<longleftrightarrow> sublist substr s"
  by (simp add: strings_Index_def Index_from_found)

lemma strings_Index_contains:
  "strings_Index s substr \<noteq> - 1 \<longleftrightarrow> (\<exists>before after. s = before @ substr @ after)"
  by (simp add: strings_Index_found sublist_def)

lemma int_of_float64_mono_bound: "e \<le> of_int t \<Longrightarrow> int_of_float64 e \<le> t"
  by (auto simp add: int_of_float64_def floor_le_iff ceiling_le_iff)

lemma int_of_float64_floor: "0 \<le> e \<Longrightarrow> int_of_float64 e = \<lfloor>e\<rfloor>"
  by (simp add: int_of_float64_def)

lemma int_of_float64_gt_nonneg:
  assumes "0 \<le> t"
  shows "t < int_of_float64 e \<longleftrightarrow> t < \<lfloor>e\<rfloor>"
proof (cases "0 \<le> e")
  case True
  then show ?thesis by (simp add: int_of_float64_def)
next
  case False
  then have "\<lceil>e\<rceil> \<le> 0" and "\<lfloor>e\<rfloor> < 0"
    by (simp_all add: ceiling_le_zero floor_less_zero)
  with assms have "\<not> t < \<lceil>e\<rceil>" and "\<not> t < \<lfloor>e\<rfloor>"
    by linarith+
  with False show ?thesis by (simp add: int_of_float64_def)
qed

text \<open>
  An elapsed time that does not exceed the timeout is not past it for \<open>hasTimeoutElapsed\<close>.
\<close>

lemma not_past_timeout:
  "clk w (CreationTimestamp build) \<le> of_int tmo \<Longrightarrow> \<not> hasTimeoutElapsed clk w build tmo"
  using int_of_float64_mono_bound [of "clk w (CreationTimestamp build)" tmo]
  by (simp add: hasTimeoutElapsed_def)

subsection \<open>The loop over the exit codes\<close>

lemma checkExitCodes_Failed: "checkExitCodes BuildFailed infos = BuildFailed"
  by (induction infos) (auto split: option.splits)

lemma checkExitCodes_eq:
  "checkExitCodes nextStatus infos =
     (if \<exists>(name, info) \<in> set infos. \<exists>t. Termination (State info) = Some t \<and> ExitCode t \<noteq> 0
      then BuildFailed else nextStatus)"
proof (induction infos arbitrary: nextStatus)
  case Nil
  show ?case by simp
next
  case (Cons x infos)
  obtain name info where x: "x = (name, info)" by (cases x)
  show ?case
  proof (cases "Termination (State info)")
    case None
    then show ?thesis by (simp add: x Cons.IH)
  next
    case (Some t)
    then show ?thesis by (cases "ExitCode t = 0") (simp_all add: x Cons.IH)
  qed
qed

subsection \<open>The branches of \<open>synchronize\<close> and the loop of \<open>watchBuilds\<close>\<close>

lemma synchronize_running:
  assumes "Status build = BuildRunning"
  shows "synchronize clk bc w build =
     (if timeout bc < int_of_float64 (clk w (CreationTimestamp build))
      then (BuildFailed, Some (Errorf ''Build timed out'' []), build, w)
      else
        (case GetPod (kubeClient bc) w (PodID build) of
           Inl err \<Rightarrow>
             (BuildRunning,
              Some (Errorf ''Error retrieving pod for build ID %v: %#v''
                      [ArgString (ID build), ArgError (CollaboratorError err)]),
              build, w @ [CallGetPod (PodID build)])
         | Inr pod \<Rightarrow>
             (if PodState_Status (CurrentState pod) \<noteq> PodTerminated
              then (BuildRunning, None, build, w @ [CallGetPod (PodID build)])
              else (checkExitCodes BuildComplete (Info (CurrentState pod)), None,
                    build, w @ [CallGetPod (PodID build)]))))"
  using assms by (simp add: synchronize_def hasTimeoutElapsed_def split: sum.splits)

lemma updateCalls_append: "updateCalls (xs @ ys) = updateCalls xs @ updateCalls ys"
  by (induction xs rule: updateCalls.induct) simp_all

lemma synchronize_updateCalls:
  "updateCalls (snd (snd (snd (synchronize clk bc w build)))) = updateCalls w"
  by (simp add: synchronize_def updateCalls_append
           split: BuildStatus.splits option.splits sum.splits)

lemma synchronize_Status:
  "Status (fst (snd (snd (synchronize clk bc w build)))) = Status build"
  by (simp add: synchronize_def split: BuildStatus.splits option.splits sum.splits)

lemma syncBuild_eq:
  "syncBuild clk bc w build =
     (case synchronize clk bc w build of
        (nextStatus, err, build', w1) \<Rightarrow>
          if nextStatus = Status build then w1
          else w1 @ [CallUpdateBuild (build'\<lparr>Status := nextStatus\<rparr>)])"
proof -
  obtain nextStatus err build' w1 where s: "synchronize clk bc w build = (nextStatus, err, build', w1)"
    by (metis prod_cases4)
  have "Status build' = Status build"
    using synchronize_Status [of clk bc w build] by (simp add: s)
  then show ?thesis by (simp add: syncBuild_def s split: sum.splits)
qed

lemma syncBuilds_append:
  "syncBuilds clk bc w (xs @ ys) = syncBuilds clk bc (syncBuilds clk bc w xs) ys"
  by (induction xs arbitrary: w) simp_all

subsection \<open>The scenario's clock\<close>

lemma elapsed_example:
  "clock_at now w (CreationTimestamp (example_build i ty st pod)) = of_int now / 1000000000"
  by (simp add: clock_at_def example_build_def)

lemma truncated_5: "int_of_float64 (of_int 5000000000 / 1000000000) = 5"
  by code_simp

lemma truncated_11: "int_of_float64 (of_int 11000000000 / 1000000000) = 11"
  by code_simp

lemma truncated_10_5: "int_of_float64 (of_int 10500000000 / 1000000000) = 10"
  by code_simp

lemma truncated_minus_0_5: "int_of_float64 (of_int (- 500000000) / 1000000000) = 0"
  by code_simp

lemma floor_minus_0_5: "\<lfloor>of_int (- 500000000) / (1000000000 :: rat)\<rfloor> = - 1"
  by code_simp

lemma exceeds_10_5: "(of_int 10 :: rat) < of_int 10500000000 / 1000000000"
  by code_simp

lemma elapsed_5s:
  "int_of_float64 (clock_at 5000000000 w (CreationTimestamp (example_build i ty st pod))) = 5"
  by (simp only: elapsed_example truncated_5)

lemma elapsed_11s:
  "int_of_float64 (clock_at 11000000000 w (CreationTimestamp (example_build i ty st pod))) = 11"
  by (simp only: elapsed_example truncated_11)

lemma elapsed_10_5s:
  "int_of_float64 (clock_at 10500000000 w (CreationTimestamp (example_build i ty st pod))) = 10"
  by (simp only: elapsed_example truncated_10_5)

lemma elapsed_10_5s_exceeds:
  "of_int 10 < clock_at 10500000000 w (CreationTimestamp (example_build i ty st pod))"
  by (simp only: elapsed_example exceeds_10_5)

lemma elapsed_minus_0_5s:
  "int_of_float64 (clock_at (- 500000000) w (CreationTimestamp (example_build i ty st pod))) = 0"
  by (simp only: elapsed_example truncated_minus_0_5)

lemma elapsed_minus_0_5s_floor:
  "\<lfloor>clock_at (- 500000000) w (CreationTimestamp (example_build i ty st pod))\<rfloor> = - 1"
  by (simp only: elapsed_example floor_minus_0_5)

subsection \<open>New builds\<close>

text \<open>
  C1. A build with status \<open>BuildNew\<close> goes to \<open>BuildPending\<close> in one application of
  \<open>synchronize\<close>, with no error and no call of a collaborator. Its \<open>PodID\<close> becomes
  \<open>"build-" + Input.Type + "-" + ID\<close>, which is not empty. The id depends on the build
  alone: another clock, controller or log gives the same id, and so does a second
  application to the build that the first one returned.
\<close>

theorem C1_new_build_pending:
  assumes "Status build = BuildNew"
  shows "synchronize clk bc w build =
           (BuildPending, None,
            build\<lparr>PodID := ''build-'' @ Type (Input build) @ ''-'' @ ID build\<rparr>, w)
         \<and> PodID (fst (snd (snd (synchronize clk bc w build)))) \<noteq> []
         \<and> PodID (fst (snd (snd (synchronize clk' bc' w' build)))) =
             PodID (fst (snd (snd (synchronize clk bc w build))))
         \<and> PodID (fst (snd (snd (synchronize clk' bc' w'
                                     (fst (snd (snd (synchronize clk bc w build)))))))) =
             PodID (fst (snd (snd (synchronize clk bc w build))))"
  using assms by (simp add: synchronize_def)

theorem C1_new_build_pending_witness:
  "Status (example_build ''b1'' ''T'' BuildNew []) = BuildNew
   \<and> fst (synchronize (clock_at 0) (example_controller Map.empty Inr (fails_with ''not found'') [] 10) []
            (example_build ''b1'' ''T'' BuildNew [])) = BuildPending
   \<and> PodID (fst (snd (snd (synchronize (clock_at 0) (example_controller Map.empty Inr (fails_with ''not found'') [] 10) []
            (example_build ''b1'' ''T'' BuildNew []))))) = ''build-T-b1''"
  using C1_new_build_pending
          [of "example_build ''b1'' ''T'' BuildNew []" "clock_at 0"
              "example_controller Map.empty Inr (fails_with ''not found'') [] 10" "[]"]
  by (simp add: example_build_def)

subsection \<open>Pending builds\<close>

text \<open>
  C6. A pending build whose \<open>Input.Type\<close> has no entry in \<open>buildStrategies\<close> gets the status
  \<open>BuildError\<close> (not \<open>BuildFailed\<close>) and the error "No build type for ...". The log of calls
  is the one before: no pod was submitted. The only call of the loop body of \<open>watchBuilds\<close>
  for this build is the \<open>UpdateBuild\<close> that writes the new status.
\<close>

theorem C6_no_strategy_error:
  assumes "Status build = BuildPending"
    and "buildStrategies bc (Type (Input build)) = None"
  shows "synchronize clk bc w build =
           (BuildError, Some (Errorf ''No build type for %s'' [ArgString (Type (Input build))]),
            build, w)
         \<and> syncBuild clk bc w build = w @ [CallUpdateBuild (build\<lparr>Status := BuildError\<rparr>)]"
  using assms by (simp add: synchronize_def syncBuild_def split: sum.splits)

theorem C6_no_strategy_error_witness:
  "Status (example_build ''b1'' ''T'' BuildPending ''build-T-b1'') = BuildPending
   \<and> buildStrategies (example_controller Map.empty Inr (fails_with ''not found'') [] 10)
        (Type (Input (example_build ''b1'' ''T'' BuildPending ''build-T-b1''))) = None
   \<and> fst (synchronize (clock_at 0) (example_controller Map.empty Inr (fails_with ''not found'') [] 10) []
            (example_build ''b1'' ''T'' BuildPending ''build-T-b1'')) = BuildError
   \<and> snd (snd (snd (synchronize (clock_at 0) (example_controller Map.empty Inr (fails_with ''not found'') [] 10) []
            (example_build ''b1'' ''T'' BuildPending ''build-T-b1'')))) = []"
  using C6_no_strategy_error
          [of "example_build ''b1'' ''T'' BuildPending ''build-T-b1''"
              "example_controller Map.empty Inr (fails_with ''not found'') [] 10" "clock_at 0" "[]"]
  by (simp add: example_build_def example_controller_def pod_found_def fails_with_def)

text \<open>
  C2. A pending build whose pod submission fails with an error whose text contains
  "already exists" keeps the status \<open>BuildPending\<close>: the result is neither \<open>BuildFailed\<close>
  nor \<open>BuildError\<close>. The error is returned beside the unchanged status, and the loop body
  of \<open>watchBuilds\<close> does not write the build back.
\<close>

theorem C2_conflict_stays_pending:
  assumes "Status build = BuildPending"
    and "buildStrategies bc (Type (Input build)) = Some buildStrategy"
    and "buildStrategy build = Inr podSpec"
    and "CreatePod (kubeClient bc) w podSpec = Inl err"
    and "err = before @ ''already exists'' @ after"
  shows "synchronize clk bc w build =
           (BuildPending, Some (CollaboratorError err), build, w @ [CallCreatePod podSpec])
         \<and> fst (synchronize clk bc w build) \<notin> {BuildFailed, BuildError}
         \<and> syncBuild clk bc w build = w @ [CallCreatePod podSpec]"
proof -
  have "strings_Index err ''already exists'' \<noteq> - 1"
    using assms(5) strings_Index_contains by blast
  then have "synchronize clk bc w build =
           (BuildPending, Some (CollaboratorError err), build, w @ [CallCreatePod podSpec])"
    using assms(1-4) by (simp add: synchronize_def)
  then show ?thesis using assms(1) by (simp add: syncBuild_def)
qed

theorem C2_conflict_stays_pending_witness:
  "Status (example_build ''b1'' ''T'' BuildPending ''build-T-b1'') = BuildPending
   \<and> buildStrategies
        (example_controller [''T'' \<mapsto> example_strategy]
           (fails_with ''pod build-T-b1 already exists'') Inl [] 10)
        (Type (Input (example_build ''b1'' ''T'' BuildPending ''build-T-b1''))) = Some example_strategy
   \<and> example_strategy (example_build ''b1'' ''T'' BuildPending ''build-T-b1'') =
        Inr (example_pod ''build-T-b1'' PodWaiting [])
   \<and> CreatePod (kubeClient
        (example_controller [''T'' \<mapsto> example_strategy]
           (fails_with ''pod build-T-b1 already exists'') Inl [] 10)) []
        (example_pod ''build-T-b1'' PodWaiting []) = Inl ''pod build-T-b1 already exists''
   \<and> ''pod build-T-b1 already exists'' = ''pod build-T-b1 '' @ ''already exists'' @ []
   \<and> fst (synchronize (clock_at 0)
        (example_controller [''T'' \<mapsto> example_strategy]
           (fails_with ''pod build-T-b1 already exists'') Inl [] 10) []
        (example_build ''b1'' ''T'' BuildPending ''build-T-b1'')) = BuildPending"
proof -
  let ?b = "example_build ''b1'' ''T'' BuildPending ''build-T-b1''"
  let ?bc = "example_controller [''T'' \<mapsto> example_strategy]
           (fails_with ''pod build-T-b1 already exists'') Inl [] 10"
  have h1: "Status ?b = BuildPending" by (simp add: example_build_def)
  have h2: "buildStrategies ?bc (Type (Input ?b)) = Some example_strategy"
    by (simp add: example_build_def example_controller_def pod_found_def fails_with_def)
  have h3: "example_strategy ?b = Inr (example_pod ''build-T-b1'' PodWaiting [])"
    by (simp add: example_build_def example_strategy_def)
  have h4: "CreatePod (kubeClient ?bc) [] (example_pod ''build-T-b1'' PodWaiting []) =
      Inl ''pod build-T-b1 already exists''"
    by (simp add: example_controller_def pod_found_def fails_with_def)
  have h5: "''pod build-T-b1 already exists'' = ''pod build-T-b1 '' @ ''already exists'' @ []"
    by simp
  from C2_conflict_stays_pending [OF h1 h2 h3 h4 h5, of "clock_at 0"]
  have "fst (synchronize (clock_at 0) ?bc [] ?b) = BuildPending" by (simp only: fst_conv)
  with h1 h2 h3 h4 h5 show ?thesis by (simp only: simp_thms)
qed

subsection \<open>Running builds\<close>

text \<open>
  C7. A running build that is not past the timeout and whose pod cannot be fetched keeps
  the status \<open>BuildRunning\<close>: the result is none of \<open>BuildComplete\<close>, \<open>BuildFailed\<close> and
  \<open>BuildError\<close>. The error of the fetch is returned wrapped, beside the unchanged status,
  and the loop body of \<open>watchBuilds\<close> does not write the build back. (By \<open>not_past_timeout\<close>
  the second assumption holds whenever the elapsed seconds do not exceed the timeout.)
\<close>

theorem C7_fetch_error_stays_running:
  assumes "Status build = BuildRunning"
    and "\<not> hasTimeoutElapsed clk w build (timeout bc)"
    and "GetPod (kubeClient bc) w (PodID build) = Inl err"
  shows "synchronize clk bc w build =
           (BuildRunning,
            Some (Errorf ''Error retrieving pod for build ID %v: %#v''
                    [ArgString (ID build), ArgError (CollaboratorError err)]),
            build, w @ [CallGetPod (PodID build)])
         \<and> fst (synchronize clk bc w build) \<notin> {BuildComplete, BuildFailed, BuildError}
         \<and> syncBuild clk bc w build = w @ [CallGetPod (PodID build)]"
proof -
  have "synchronize clk bc w build =
           (BuildRunning,
            Some (Errorf ''Error retrieving pod for build ID %v: %#v''
                    [ArgString (ID build), ArgError (CollaboratorError err)]),
            build, w @ [CallGetPod (PodID build)])"
    using assms by (simp add: synchronize_running hasTimeoutElapsed_def)
  then show ?thesis using assms(1) by (simp add: syncBuild_def)
qed

theorem C7_fetch_error_stays_running_witness:
  "Status (example_build ''b1'' ''T'' BuildRunning ''build-T-b1'') = BuildRunning
   \<and> \<not> hasTimeoutElapsed (clock_at 5000000000) []
          (example_build ''b1'' ''T'' BuildRunning ''build-T-b1'')
          (timeout (example_controller [''T'' \<mapsto> example_strategy] Inr
                      (fails_with ''connection refused'') [] 10))
   \<and> GetPod (kubeClient (example_controller [''T'' \<mapsto> example_strategy] Inr
                      (fails_with ''connection refused'') [] 10)) []
        (PodID (example_build ''b1'' ''T'' BuildRunning ''build-T-b1'')) = Inl ''connection refused''
   \<and> fst (synchronize (clock_at 5000000000)
             (example_controller [''T'' \<mapsto> example_strategy] Inr
                (fails_with ''connection refused'') [] 10) []
             (example_build ''b1'' ''T'' BuildRunning ''build-T-b1'')) = BuildRunning"
proof -
  let ?b = "example_build ''b1'' ''T'' BuildRunning ''build-T-b1''"
  let ?bc = "example_controller [''T'' \<mapsto> example_strategy] Inr
               (fails_with ''connection refused'') [] 10"
  have h1: "Status ?b = BuildRunning" by (simp add: example_build_def)
  have h2: "\<not> hasTimeoutElapsed (clock_at 5000000000) [] ?b (timeout ?bc)"
    by (simp add: hasTimeoutElapsed_def elapsed_5s example_controller_def pod_found_def fails_with_def)
  have h3: "GetPod (kubeClient ?bc) [] (PodID ?b) = Inl ''connection refused''"
    by (simp add: example_controller_def pod_found_def fails_with_def)
  from C7_fetch_error_stays_running [OF h1 h2 h3]
  have "fst (synchronize (clock_at 5000000000) ?bc [] ?b) = BuildRunning"
    by (simp only: fst_conv)
  with h1 h2 h3 show ?thesis by (simp only: simp_thms)
qed

text \<open>
  C3, as the code has it. For a running build whose pod is reported as terminated,
  \<open>synchronize\<close> yields \<open>BuildComplete\<close> only if no container reports an exit code other
  than 0, that is, every container that has a termination record has exit code 0; and it
  yields \<open>BuildFailed\<close> whenever some container reports an exit code other than 0, whatever
  the other containers report.
\<close>

theorem C3_exit_codes:
  assumes "Status build = BuildRunning"
    and "GetPod (kubeClient bc) w (PodID build) = Inr pod"
    and "PodState_Status (CurrentState pod) = PodTerminated"
  shows "(fst (synchronize clk bc w build) = BuildComplete \<longrightarrow>
            (\<forall>(name, info) \<in> set (Info (CurrentState pod)).
               \<forall>t. Termination (State info) = Some t \<longrightarrow> ExitCode t = 0))
         \<and> ((\<exists>(name, info) \<in> set (Info (CurrentState pod)).
               \<exists>t. Termination (State info) = Some t \<and> ExitCode t \<noteq> 0) \<longrightarrow>
            fst (synchronize clk bc w build) = BuildFailed)"
proof (cases "timeout bc < int_of_float64 (clk w (CreationTimestamp build))")
  case True
  then have "fst (synchronize clk bc w build) = BuildFailed"
    using assms(1) by (simp add: synchronize_running)
  then show ?thesis by simp
next
  case False
  then have "fst (synchronize clk bc w build) =
      checkExitCodes BuildComplete (Info (CurrentState pod))"
    using assms by (simp add: synchronize_running)
  then show ?thesis by (auto simp add: checkExitCodes_eq split: if_splits)
qed

theorem C3_exit_codes_witness:
  "Status (example_build ''b1'' ''T'' BuildRunning ''build-T-b1'') = BuildRunning
   \<and> GetPod (kubeClient (example_controller [''T'' \<mapsto> example_strategy] Inr
          (pod_found PodTerminated [(''a'', exited 0), (''b'', exited 1)]) [] 10)) []
        (PodID (example_build ''b1'' ''T'' BuildRunning ''build-T-b1'')) =
        Inr (example_pod ''build-T-b1'' PodTerminated [(''a'', exited 0), (''b'', exited 1)])
   \<and> PodState_Status (CurrentState
          (example_pod ''build-T-b1'' PodTerminated [(''a'', exited 0), (''b'', exited 1)])) =
        PodTerminated
   \<and> Termination (State (exited 1)) = Some \<lparr>ExitCode = 1\<rparr>
   \<and> fst (synchronize (clock_at 5000000000)
          (example_controller [''T'' \<mapsto> example_strategy] Inr
             (pod_found PodTerminated [(''a'', exited 0), (''b'', exited 1)]) [] 10)
          [] (example_build ''b1'' ''T'' BuildRunning ''build-T-b1'')) = BuildFailed"
proof -
  let ?b = "example_build ''b1'' ''T'' BuildRunning ''build-T-b1''"
  let ?pod = "example_pod ''build-T-b1'' PodTerminated [(''a'', exited 0), (''b'', exited 1)]"
  let ?bc = "example_controller [''T'' \<mapsto> example_strategy] Inr
          (pod_found PodTerminated [(''a'', exited 0), (''b'', exited 1)]) [] 10"
  have h1: "Status ?b = BuildRunning" by (simp add: example_build_def)
  have h2: "GetPod (kubeClient ?bc) [] (PodID ?b) = Inr ?pod"
    by (simp add: example_controller_def pod_found_def fails_with_def example_build_def)
  have h3: "PodState_Status (CurrentState ?pod) = PodTerminated"
    by (simp add: example_pod_def)
  have h4: "Termination (State (exited 1)) = Some \<lparr>ExitCode = 1\<rparr>"
    by (simp add: exited_def)
  have h5: "\<exists>(name, info) \<in> set (Info (CurrentState ?pod)).
              \<exists>t. Termination (State info) = Some t \<and> ExitCode t \<noteq> 0"
    by (simp add: example_pod_def exited_def)
  from C3_exit_codes [OF h1 h2 h3, of "clock_at 5000000000"] h5
  have "fst (synchronize (clock_at 5000000000) ?bc [] ?b) = BuildFailed"
    by blast
  with h1 h2 h3 h4 show ?thesis by (simp only: simp_thms)
qed

text \<open>
  \<open>BuildComplete\<close> does not need every container to report exit code 0: the only container
  of this terminated pod has no termination record, so it reports no exit code at all, and
  the build is complete.
\<close>

theorem C3_exit_codes_counterexample:
  "Status (example_build ''b1'' ''T'' BuildRunning ''build-T-b1'') = BuildRunning
   \<and> GetPod (kubeClient (example_controller [''T'' \<mapsto> example_strategy] Inr
          (pod_found PodTerminated [(''sti-build'', not_exited)]) [] 10)) []
        (PodID (example_build ''b1'' ''T'' BuildRunning ''build-T-b1'')) =
        Inr (example_pod ''build-T-b1'' PodTerminated [(''sti-build'', not_exited)])
   \<and> PodState_Status (CurrentState
          (example_pod ''build-T-b1'' PodTerminated [(''sti-build'', not_exited)])) = PodTerminated
   \<and> Info (CurrentState (example_pod ''build-T-b1'' PodTerminated [(''sti-build'', not_exited)])) =
        [(''sti-build'', not_exited)]
   \<and> Termination (State not_exited) = None
   \<and> fst (synchronize (clock_at 5000000000)
          (example_controller [''T'' \<mapsto> example_strategy] Inr
             (pod_found PodTerminated [(''sti-build'', not_exited)]) [] 10)
          [] (example_build ''b1'' ''T'' BuildRunning ''build-T-b1'')) = BuildComplete"
proof -
  let ?b = "example_build ''b1'' ''T'' BuildRunning ''build-T-b1''"
  let ?pod = "example_pod ''build-T-b1'' PodTerminated [(''sti-build'', not_exited)]"
  let ?bc = "example_controller [''T'' \<mapsto> example_strategy] Inr
          (pod_found PodTerminated [(''sti-build'', not_exited)]) [] 10"
  have h1: "Status ?b = BuildRunning" by (simp add: example_build_def)
  have h2: "GetPod (kubeClient ?bc) [] (PodID ?b) = Inr ?pod"
    by (simp add: example_controller_def pod_found_def fails_with_def example_build_def)
  have h3: "PodState_Status (CurrentState ?pod) = PodTerminated"
    by (simp add: example_pod_def)
  have h4: "Info (CurrentState ?pod) = [(''sti-build'', not_exited)]"
    by (simp add: example_pod_def)
  have h5: "Termination (State not_exited) = None"
    by (simp add: not_exited_def)
  have t: "timeout ?bc = 10" by (simp add: example_controller_def pod_found_def fails_with_def)
  have "fst (synchronize (clock_at 5000000000) ?bc [] ?b) = BuildComplete"
    by (simp add: synchronize_running [OF h1] elapsed_5s t h2 h3 h4 h5)
  with h1 h2 h3 h4 h5 show ?thesis by (simp only: simp_thms)
qed

text \<open>
  C9, as the code has it. For a running build that is not past the timeout and whose pod
  is reported as terminated, a container without termination record counts as success:
  \<open>synchronize\<close> returns \<open>BuildComplete\<close> whenever no container reports an exit code other
  than 0, also when some or all containers have no termination record and when the pod has
  no container at all.
\<close>

theorem C9_no_record_counts_as_success:
  assumes "Status build = BuildRunning"
    and "\<not> hasTimeoutElapsed clk w build (timeout bc)"
    and "GetPod (kubeClient bc) w (PodID build) = Inr pod"
    and "PodState_Status (CurrentState pod) = PodTerminated"
    and "\<forall>(name, info) \<in> set (Info (CurrentState pod)).
           \<forall>t. Termination (State info) = Some t \<longrightarrow> ExitCode t = 0"
  shows "synchronize clk bc w build =
           (BuildComplete, None, build, w @ [CallGetPod (PodID build)])"
proof -
  have "checkExitCodes BuildComplete (Info (CurrentState pod)) = BuildComplete"
    using assms(5) by (auto simp add: checkExitCodes_eq)
  then show ?thesis
    using assms(1-4) by (simp add: synchronize_running hasTimeoutElapsed_def)
qed

theorem C9_no_record_counts_as_success_witness:
  "Status (example_build ''b1'' ''T'' BuildRunning ''build-T-b1'') = BuildRunning
   \<and> \<not> hasTimeoutElapsed (clock_at 5000000000) []
          (example_build ''b1'' ''T'' BuildRunning ''build-T-b1'')
          (timeout (example_controller [''T'' \<mapsto> example_strategy] Inr
             (pod_found PodTerminated [(''a'', not_exited), (''b'', exited 0)]) [] 10))
   \<and> GetPod (kubeClient (example_controller [''T'' \<mapsto> example_strategy] Inr
          (pod_found PodTerminated [(''a'', not_exited), (''b'', exited 0)]) [] 10)) []
        (PodID (example_build ''b1'' ''T'' BuildRunning ''build-T-b1'')) =
        Inr (example_pod ''build-T-b1'' PodTerminated [(''a'', not_exited), (''b'', exited 0)])
   \<and> PodState_Status (CurrentState
          (example_pod ''build-T-b1'' PodTerminated [(''a'', not_exited), (''b'', exited 0)])) =
        PodTerminated
   \<and> Termination (State not_exited) = None
   \<and> Termination (State (exited 0)) = Some \<lparr>ExitCode = 0\<rparr>
   \<and> fst (synchronize (clock_at 5000000000)
          (example_controller [''T'' \<mapsto> example_strategy] Inr
             (pod_found PodTerminated [(''a'', not_exited), (''b'', exited 0)]) [] 10)
          [] (example_build ''b1'' ''T'' BuildRunning ''build-T-b1'')) = BuildComplete"
proof -
  let ?b = "example_build ''b1'' ''T'' BuildRunning ''build-T-b1''"
  let ?pod = "example_pod ''build-T-b1'' PodTerminated [(''a'', not_exited), (''b'', exited 0)]"
  let ?bc = "example_controller [''T'' \<mapsto> example_strategy] Inr
          (pod_found PodTerminated [(''a'', not_exited), (''b'', exited 0)]) [] 10"
  have h1: "Status ?b = BuildRunning" by (simp add: example_build_def)
  have h2: "\<not> hasTimeoutElapsed (clock_at 5000000000) [] ?b (timeout ?bc)"
    by (simp add: hasTimeoutElapsed_def elapsed_5s example_controller_def pod_found_def fails_with_def)
  have h3: "GetPod (kubeClient ?bc) [] (PodID ?b) = Inr ?pod"
    by (simp add: example_controller_def pod_found_def fails_with_def example_build_def)
  have h4: "PodState_Status (CurrentState ?pod) = PodTerminated"
    by (simp add: example_pod_def)
  have h5: "\<forall>(name, info) \<in> set (Info (CurrentState ?pod)).
              \<forall>t. Termination (State info) = Some t \<longrightarrow> ExitCode t = 0"
    by (simp add: example_pod_def exited_def not_exited_def)
  have h6: "Termination (State not_exited) = None" by (simp add: not_exited_def)
  have h7: "Termination (State (exited 0)) = Some \<lparr>ExitCode = 0\<rparr>" by (simp add: exited_def)
  from C9_no_record_counts_as_success [OF h1 h2 h3 h4 h5]
  have "fst (synchronize (clock_at 5000000000) ?bc [] ?b) = BuildComplete"
    by (simp only: fst_conv)
  with h1 h2 h3 h4 h6 h7 show ?thesis by (simp only: simp_thms)
qed

text \<open>
  Without the condition on the timeout the statement fails: this running build is 11
  seconds old with a timeout of 10, its pod is terminated and no container reports a
  failure, and the build fails by timeout (the pod is not fetched).
\<close>

theorem C9_no_record_counts_as_success_counterexample:
  "Status (example_build ''b1'' ''T'' BuildRunning ''build-T-b1'') = BuildRunning
   \<and> GetPod (kubeClient (example_controller [''T'' \<mapsto> example_strategy] Inr
          (pod_found PodTerminated []) [] 10)) []
        (PodID (example_build ''b1'' ''T'' BuildRunning ''build-T-b1'')) =
        Inr (example_pod ''build-T-b1'' PodTerminated [])
   \<and> PodState_Status (CurrentState (example_pod ''build-T-b1'' PodTerminated [])) = PodTerminated
   \<and> Info (CurrentState (example_pod ''build-T-b1'' PodTerminated [])) = []
   \<and> synchronize (clock_at 11000000000)
        (example_controller [''T'' \<mapsto> example_strategy] Inr
          (pod_found PodTerminated []) [] 10) []
        (example_build ''b1'' ''T'' BuildRunning ''build-T-b1'') =
       (BuildFailed, Some (Errorf ''Build timed out'' []),
        example_build ''b1'' ''T'' BuildRunning ''build-T-b1'', [])"
proof -
  let ?b = "example_build ''b1'' ''T'' BuildRunning ''build-T-b1''"
  let ?pod = "example_pod ''build-T-b1'' PodTerminated []"
  let ?bc = "example_controller [''T'' \<mapsto> example_strategy] Inr
          (pod_found PodTerminated []) [] 10"
  have h1: "Status ?b = BuildRunning" by (simp add: example_build_def)
  have h2: "GetPod (kubeClient ?bc) [] (PodID ?b) = Inr ?pod"
    by (simp add: example_controller_def pod_found_def fails_with_def example_build_def)
  have h3: "PodState_Status (CurrentState ?pod) = PodTerminated"
    by (simp add: example_pod_def)
  have h4: "Info (CurrentState ?pod) = []"
    by (simp add: example_pod_def)
  have t: "timeout ?bc = 10" by (simp add: example_controller_def pod_found_def fails_with_def)
  have "synchronize (clock_at 11000000000) ?bc [] ?b =
          (BuildFailed, Some (Errorf ''Build timed out'' []), ?b, [])"
    by (simp add: synchronize_running [OF h1] elapsed_11s t)
  with h1 h2 h3 h4 show ?thesis by (simp only: simp_thms)
qed

subsection \<open>The timeout\<close>

text \<open>
  C4, as the code has it. For a running build whose elapsed seconds since
  \<open>CreationTimestamp\<close>, truncated to a whole number, exceed the timeout, \<open>synchronize\<close> yields
  \<open>BuildFailed\<close> with the error "Build timed out". The check comes before the pod is
  fetched: the log of calls is unchanged, so the pod's state plays no part. A running
  build gets this error in no other case.
\<close>

theorem C4_timeout_fails:
  assumes "Status build = BuildRunning"
  shows "(timeout bc < int_of_float64 (clk w (CreationTimestamp build)) \<longrightarrow>
            synchronize clk bc w build =
              (BuildFailed, Some (Errorf ''Build timed out'' []), build, w))
         \<and> (fst (snd (synchronize clk bc w build)) = Some (Errorf ''Build timed out'' []) \<longleftrightarrow>
              timeout bc < int_of_float64 (clk w (CreationTimestamp build)))"
  using assms by (simp add: synchronize_running split: sum.splits)

theorem C4_timeout_fails_witness:
  "Status (example_build ''b1'' ''T'' BuildRunning ''build-T-b1'') = BuildRunning
   \<and> timeout (example_controller [''T'' \<mapsto> example_strategy] Inr
          (pod_found PodRunning []) [] 10)
       < int_of_float64 (clock_at 11000000000 []
           (CreationTimestamp (example_build ''b1'' ''T'' BuildRunning ''build-T-b1'')))
   \<and> synchronize (clock_at 11000000000)
        (example_controller [''T'' \<mapsto> example_strategy] Inr
          (pod_found PodRunning []) [] 10) []
        (example_build ''b1'' ''T'' BuildRunning ''build-T-b1'') =
       (BuildFailed, Some (Errorf ''Build timed out'' []),
        example_build ''b1'' ''T'' BuildRunning ''build-T-b1'', [])"
proof -
  let ?b = "example_build ''b1'' ''T'' BuildRunning ''build-T-b1''"
  let ?bc = "example_controller [''T'' \<mapsto> example_strategy] Inr
          (pod_found PodRunning []) [] 10"
  have h1: "Status ?b = BuildRunning" by (simp add: example_build_def)
  have h2: "timeout ?bc < int_of_float64 (clock_at 11000000000 [] (CreationTimestamp ?b))"
    by (simp add: elapsed_11s example_controller_def pod_found_def fails_with_def)
  from C4_timeout_fails [OF h1, of ?bc "clock_at 11000000000" "[]"] h2
  have "synchronize (clock_at 11000000000) ?bc [] ?b =
       (BuildFailed, Some (Errorf ''Build timed out'' []), ?b, [])"
    by blast
  with h1 h2 show ?thesis by (simp only: simp_thms)
qed

text \<open>
  An elapsed time that exceeds the timeout by less than a second does not fail the build:
  10.5 seconds have elapsed, the timeout is 10, the pod is still running, and the build
  stays \<open>BuildRunning\<close>.
\<close>

theorem C4_timeout_fails_counterexample:
  "Status (example_build ''b1'' ''T'' BuildRunning ''build-T-b1'') = BuildRunning
   \<and> of_int (timeout (example_controller [''T'' \<mapsto> example_strategy] Inr
          (pod_found PodRunning []) [] 10))
       < clock_at 10500000000 []
           (CreationTimestamp (example_build ''b1'' ''T'' BuildRunning ''build-T-b1''))
   \<and> GetPod (kubeClient (example_controller [''T'' \<mapsto> example_strategy] Inr
          (pod_found PodRunning []) [] 10)) []
        (PodID (example_build ''b1'' ''T'' BuildRunning ''build-T-b1'')) =
        Inr (example_pod ''build-T-b1'' PodRunning [])
   \<and> PodState_Status (CurrentState (example_pod ''build-T-b1'' PodRunning [])) \<noteq> PodTerminated
   \<and> synchronize (clock_at 10500000000)
        (example_controller [''T'' \<mapsto> example_strategy] Inr
          (pod_found PodRunning []) [] 10) []
        (example_build ''b1'' ''T'' BuildRunning ''build-T-b1'') =
       (BuildRunning, None, example_build ''b1'' ''T'' BuildRunning ''build-T-b1'',
        [CallGetPod ''build-T-b1''])"
proof -
  let ?b = "example_build ''b1'' ''T'' BuildRunning ''build-T-b1''"
  let ?pod = "example_pod ''build-T-b1'' PodRunning []"
  let ?bc = "example_controller [''T'' \<mapsto> example_strategy] Inr
          (pod_found PodRunning []) [] 10"
  have h1: "Status ?b = BuildRunning" by (simp add: example_build_def)
  have t: "timeout ?bc = 10" by (simp add: example_controller_def pod_found_def fails_with_def)
  have h2: "of_int (timeout ?bc) < clock_at 10500000000 [] (CreationTimestamp ?b)"
    by (simp only: t elapsed_10_5s_exceeds)
  have h3: "GetPod (kubeClient ?bc) [] (PodID ?b) = Inr ?pod"
    by (simp add: example_controller_def pod_found_def fails_with_def example_build_def)
  have h4: "PodState_Status (CurrentState ?pod) \<noteq> PodTerminated"
    by (simp add: example_pod_def)
  have p: "PodID ?b = ''build-T-b1''" by (simp add: example_build_def)
  have "synchronize (clock_at 10500000000) ?bc [] ?b =
          (BuildRunning, None, ?b, [CallGetPod (PodID ?b)])"
    by (simp add: synchronize_running [OF h1] elapsed_10_5s t h3 h4)
  then have "synchronize (clock_at 10500000000) ?bc [] ?b =
          (BuildRunning, None, ?b, [CallGetPod ''build-T-b1''])"
    by (simp only: p)
  with h1 h2 h3 h4 show ?thesis by (simp only: simp_thms)
qed

text \<open>
  C10, as the code has it. The timeout test converts the elapsed seconds to an integer,
  which truncates them towards zero, and compares strictly: a running build whose truncated
  elapsed seconds are equal to the timeout or below it does not get the timeout error, and
  the timeout error comes with \<open>BuildFailed\<close> and only when the truncated elapsed seconds are
  strictly greater than the timeout. When the elapsed time or the timeout is not negative,
  the test is the same as \<open>timeout < floor (elapsed seconds)\<close>.
\<close>

theorem C10_truncated_strict:
  assumes "Status build = BuildRunning"
  shows "(hasTimeoutElapsed clk w build (timeout bc) \<longleftrightarrow>
            timeout bc < int_of_float64 (clk w (CreationTimestamp build)))
         \<and> (int_of_float64 (clk w (CreationTimestamp build)) \<le> timeout bc \<longrightarrow>
              fst (snd (synchronize clk bc w build)) \<noteq> Some (Errorf ''Build timed out'' []))
         \<and> (fst (snd (synchronize clk bc w build)) = Some (Errorf ''Build timed out'' []) \<longrightarrow>
              fst (synchronize clk bc w build) = BuildFailed
              \<and> timeout bc < int_of_float64 (clk w (CreationTimestamp build)))
         \<and> (0 \<le> clk w (CreationTimestamp build) \<or> 0 \<le> timeout bc \<longrightarrow>
              (hasTimeoutElapsed clk w build (timeout bc) \<longleftrightarrow>
                 timeout bc < \<lfloor>clk w (CreationTimestamp build)\<rfloor>))"
proof -
  have 1: "hasTimeoutElapsed clk w build (timeout bc) \<longleftrightarrow>
            timeout bc < int_of_float64 (clk w (CreationTimestamp build))"
    by (simp add: hasTimeoutElapsed_def)
  have 2: "fst (snd (synchronize clk bc w build)) = Some (Errorf ''Build timed out'' []) \<longleftrightarrow>
              timeout bc < int_of_float64 (clk w (CreationTimestamp build))"
    using assms by (simp add: synchronize_running split: sum.splits)
  have 3: "timeout bc < int_of_float64 (clk w (CreationTimestamp build)) \<Longrightarrow>
      fst (synchronize clk bc w build) = BuildFailed"
    using assms by (simp add: synchronize_running)
  have 4: "0 \<le> clk w (CreationTimestamp build) \<or> 0 \<le> timeout bc \<Longrightarrow>
      timeout bc < int_of_float64 (clk w (CreationTimestamp build)) \<longleftrightarrow>
      timeout bc < \<lfloor>clk w (CreationTimestamp build)\<rfloor>"
    using int_of_float64_floor int_of_float64_gt_nonneg by auto
  show ?thesis using 1 2 3 4 by auto
qed

theorem C10_truncated_strict_witness:
  "Status (example_build ''b1'' ''T'' BuildRunning ''build-T-b1'') = BuildRunning
   \<and> int_of_float64 (clock_at 10500000000 []
         (CreationTimestamp (example_build ''b1'' ''T'' BuildRunning ''build-T-b1'')))
       \<le> timeout (example_controller [''T'' \<mapsto> example_strategy] Inr
             (pod_found PodRunning []) [] 10)
   \<and> 0 \<le> timeout (example_controller [''T'' \<mapsto> example_strategy] Inr
             (pod_found PodRunning []) [] 10)
   \<and> \<not> hasTimeoutElapsed (clock_at 10500000000) []
          (example_build ''b1'' ''T'' BuildRunning ''build-T-b1'')
          (timeout (example_controller [''T'' \<mapsto> example_strategy] Inr
             (pod_found PodRunning []) [] 10))
   \<and> fst (snd (synchronize (clock_at 10500000000)
          (example_controller [''T'' \<mapsto> example_strategy] Inr
             (pod_found PodRunning []) [] 10) []
          (example_build ''b1'' ''T'' BuildRunning ''build-T-b1''))) \<noteq>
        Some (Errorf ''Build timed out'' [])"
proof -
  let ?b = "example_build ''b1'' ''T'' BuildRunning ''build-T-b1''"
  let ?bc = "example_controller [''T'' \<mapsto> example_strategy] Inr
          (pod_found PodRunning []) [] 10"
  have h1: "Status ?b = BuildRunning" by (simp add: example_build_def)
  have t: "timeout ?bc = 10" by (simp add: example_controller_def pod_found_def fails_with_def)
  have h2: "int_of_float64 (clock_at 10500000000 [] (CreationTimestamp ?b)) \<le> timeout ?bc"
    by (simp add: elapsed_10_5s t)
  have h3: "0 \<le> timeout ?bc" by (simp add: t)
  from C10_truncated_strict [OF h1, of "clock_at 10500000000" "[]" ?bc] h2
  have "\<not> hasTimeoutElapsed (clock_at 10500000000) [] ?b (timeout ?bc)
        \<and> fst (snd (synchronize (clock_at 10500000000) ?bc [] ?b)) \<noteq>
            Some (Errorf ''Build timed out'' [])"
    by (simp only: simp_thms not_less)
  with h1 h2 h3 show ?thesis by (simp only: simp_thms)
qed

text \<open>
  Truncation is not \<open>floor\<close> below zero: with a creation timestamp half a second ahead of
  the clock and a timeout of \<open>-1\<close>, the truncated elapsed seconds are 0 and the build fails
  by timeout, while the floor of the elapsed seconds is \<open>-1\<close>, not greater than the timeout.
\<close>

theorem C10_truncated_strict_counterexample:
  "Status (example_build ''b1'' ''T'' BuildRunning ''build-T-b1'') = BuildRunning
   \<and> hasTimeoutElapsed (clock_at (- 500000000)) []
        (example_build ''b1'' ''T'' BuildRunning ''build-T-b1'')
        (timeout (example_controller [''T'' \<mapsto> example_strategy] Inr
           (pod_found PodRunning []) [] (- 1)))
   \<and> \<not> timeout (example_controller [''T'' \<mapsto> example_strategy] Inr
           (pod_found PodRunning []) [] (- 1))
         < \<lfloor>clock_at (- 500000000) []
             (CreationTimestamp (example_build ''b1'' ''T'' BuildRunning ''build-T-b1''))\<rfloor>
   \<and> synchronize (clock_at (- 500000000))
        (example_controller [''T'' \<mapsto> example_strategy] Inr
           (pod_found PodRunning []) [] (- 1)) []
        (example_build ''b1'' ''T'' BuildRunning ''build-T-b1'') =
       (BuildFailed, Some (Errorf ''Build timed out'' []),
        example_build ''b1'' ''T'' BuildRunning ''build-T-b1'', [])"
proof -
  let ?b = "example_build ''b1'' ''T'' BuildRunning ''build-T-b1''"
  let ?bc = "example_controller [''T'' \<mapsto> example_strategy] Inr
          (pod_found PodRunning []) [] (- 1)"
  have h1: "Status ?b = BuildRunning" by (simp add: example_build_def)
  have t: "timeout ?bc = - 1" by (simp add: example_controller_def pod_found_def fails_with_def)
  have h2: "hasTimeoutElapsed (clock_at (- 500000000)) [] ?b (timeout ?bc)"
    by (simp add: hasTimeoutElapsed_def elapsed_minus_0_5s t)
  have h3: "\<not> timeout ?bc < \<lfloor>clock_at (- 500000000) [] (CreationTimestamp ?b)\<rfloor>"
    by (simp add: elapsed_minus_0_5s_floor t)
  have "synchronize (clock_at (- 500000000)) ?bc [] ?b =
          (BuildFailed, Some (Errorf ''Build timed out'' []), ?b, [])"
    by (simp add: synchronize_running [OF h1] elapsed_minus_0_5s t)
  with h1 h2 h3 show ?thesis by (simp only: simp_thms)
qed

subsection \<open>Final statuses\<close>

text \<open>
  C5. For a build whose status is \<open>BuildComplete\<close>, \<open>BuildFailed\<close> or \<open>BuildError\<close>,
  \<open>synchronize\<close> returns that status, with no error, whatever the clock, the controller and
  its collaborators are: no collaborator is called, and the loop body of \<open>watchBuilds\<close>
  leaves the log as it was.
\<close>

theorem C5_final_statuses_absorbing:
  assumes "Status build \<in> {BuildComplete, BuildFailed, BuildError}"
  shows "synchronize clk bc w build = (Status build, None, build, w)
         \<and> syncBuild clk bc w build = w"
  using assms by (auto simp add: synchronize_def syncBuild_def)

theorem C5_final_statuses_absorbing_witness:
  "Status (example_build ''b1'' ''T'' BuildFailed ''build-T-b1'')
     \<in> {BuildComplete, BuildFailed, BuildError}
   \<and> fst (synchronize (clock_at 99000000000)
        (example_controller Map.empty Inr (pod_found PodTerminated []) [] 10) []
        (example_build ''b1'' ''T'' BuildFailed ''build-T-b1'')) = BuildFailed"
  using C5_final_statuses_absorbing
          [of "example_build ''b1'' ''T'' BuildFailed ''build-T-b1''" "clock_at 99000000000"
              "example_controller Map.empty Inr (pod_found PodTerminated []) [] 10"
              "[]"]
  by (simp add: example_build_def)

subsection \<open>One tick of \<open>watchBuilds\<close>\<close>

text \<open>
  C8. In a tick whose listing succeeds, take any build of the list, with the builds
  \<open>pre\<close> before it and \<open>post\<close> after it. \<open>synchronize\<close> itself makes no call of
  \<open>UpdateBuild\<close>. When the next status it computes for the build is the build's status, the
  loop body adds no call to the log that \<open>synchronize\<close> left; otherwise it adds exactly one
  call of \<open>UpdateBuild\<close>, for the build with the new status. The rest of the tick is the loop
  over \<open>post\<close>.
\<close>

theorem C8_update_only_on_change:
  assumes "ListBuilds (osClient bc) w0 = Inr builds"
    and "Items builds = pre @ build # post"
  shows "case synchronize clk bc (syncBuilds clk bc (w0 @ [CallListBuilds]) pre) build of
           (nextStatus, err, build', w1) \<Rightarrow>
             updateCalls w1 = updateCalls (syncBuilds clk bc (w0 @ [CallListBuilds]) pre)
             \<and> syncBuilds clk bc (w0 @ [CallListBuilds]) (pre @ [build]) =
                 (if nextStatus = Status build then w1
                  else w1 @ [CallUpdateBuild (build'\<lparr>Status := nextStatus\<rparr>)])
             \<and> fst (watchBuilds_tick clk bc w0) =
                 syncBuilds clk bc (syncBuilds clk bc (w0 @ [CallListBuilds]) (pre @ [build])) post"
proof -
  let ?w = "syncBuilds clk bc (w0 @ [CallListBuilds]) pre"
  obtain nextStatus err build' w1
    where s: "synchronize clk bc ?w build = (nextStatus, err, build', w1)"
    by (metis prod_cases4)
  have u: "updateCalls w1 = updateCalls ?w"
    using synchronize_updateCalls [of clk bc ?w build] by (simp add: s)
  have b: "syncBuilds clk bc (w0 @ [CallListBuilds]) (pre @ [build]) =
             (if nextStatus = Status build then w1
              else w1 @ [CallUpdateBuild (build'\<lparr>Status := nextStatus\<rparr>)])"
    by (simp add: syncBuilds_append syncBuild_eq s)
  have t: "fst (watchBuilds_tick clk bc w0) =
             syncBuilds clk bc (syncBuilds clk bc (w0 @ [CallListBuilds]) (pre @ [build])) post"
    using assms by (simp add: watchBuilds_tick_def syncBuilds_append)
  show ?thesis using u b t by (simp add: s)
qed

theorem C8_update_only_on_change_witness:
  "ListBuilds (osClient (example_controller Map.empty Inr (fails_with ''not found'')
       [example_build ''b1'' ''T'' BuildComplete ''build-T-b1'',
        example_build ''b2'' ''T'' BuildNew []] 10)) [] =
     Inr \<lparr>Items = [example_build ''b1'' ''T'' BuildComplete ''build-T-b1'',
                   example_build ''b2'' ''T'' BuildNew []]\<rparr>
   \<and> Items \<lparr>Items = [example_build ''b1'' ''T'' BuildComplete ''build-T-b1'',
                     example_build ''b2'' ''T'' BuildNew []]\<rparr> =
       [] @ example_build ''b1'' ''T'' BuildComplete ''build-T-b1'' #
         [example_build ''b2'' ''T'' BuildNew []]
   \<and> fst (synchronize (clock_at 0)
        (example_controller Map.empty Inr (fails_with ''not found'')
           [example_build ''b1'' ''T'' BuildComplete ''build-T-b1'',
            example_build ''b2'' ''T'' BuildNew []] 10)
        [CallListBuilds] (example_build ''b1'' ''T'' BuildComplete ''build-T-b1'')) =
       Status (example_build ''b1'' ''T'' BuildComplete ''build-T-b1'')
   \<and> syncBuilds (clock_at 0)
        (example_controller Map.empty Inr (fails_with ''not found'')
           [example_build ''b1'' ''T'' BuildComplete ''build-T-b1'',
            example_build ''b2'' ''T'' BuildNew []] 10)
        [CallListBuilds] [example_build ''b1'' ''T'' BuildComplete ''build-T-b1''] =
       [CallListBuilds]"
proof -
  let ?b1 = "example_build ''b1'' ''T'' BuildComplete ''build-T-b1''"
  let ?b2 = "example_build ''b2'' ''T'' BuildNew []"
  let ?bc = "example_controller Map.empty Inr (fails_with ''not found'') [?b1, ?b2] 10"
  have h1: "ListBuilds (osClient ?bc) [] = Inr \<lparr>Items = [?b1, ?b2]\<rparr>"
    by (simp add: example_controller_def pod_found_def fails_with_def)
  have h2: "Items \<lparr>Items = [?b1, ?b2]\<rparr> = [] @ ?b1 # [?b2]"
    by simp
  have s1: "Status ?b1 = BuildComplete" by (simp add: example_build_def)
  have s: "synchronize (clock_at 0) ?bc [CallListBuilds] ?b1 =
             (Status ?b1, None, ?b1, [CallListBuilds])"
    by (simp add: synchronize_def s1)
  from C8_update_only_on_change [OF h1 h2, of "clock_at 0"]
  have "syncBuilds (clock_at 0) ?bc [CallListBuilds] [?b1] = [CallListBuilds]"
    by (simp add: s)
  with h1 h2 s show ?thesis by (simp only: fst_conv simp_thms)
qed

end
